theory Spec2Isabelle
  imports Complex_Main "HOL-Library.Log_Nat"
begin

section \<open>Binary64 floating point\<close>

text \<open>
  The columns \<open>balance\<close> and \<open>amount\<close> are \<open>Float\<close> and the request fields are Python
  \<open>float\<close>s: IEEE 754 binary64 numbers. A value is a finite number, which is given by the
  rational it denotes (\<open>Finite 0\<close> is \<open>+0.0\<close>), the negative zero, an infinity, or NaN.
\<close>

datatype float = Finite rat | NegZero | PInf | NInf | NaN

fun val :: "float \<Rightarrow> rat" where
  "val (Finite x) = x"
| "val NegZero = 0"
| "val PInf = 0"
| "val NInf = 0"
| "val NaN = 0"


definition pow2 :: "int \<Rightarrow> rat" where
  "pow2 k = (if 0 \<le> k then 2 ^ nat k else 1 / 2 ^ nat (- k))"

text \<open>
  \<open>ilog2 x\<close> is the integer \<open>e\<close> with \<open>2^e \<le> x < 2^(e+1)\<close>, for \<open>x > 0\<close>: the bit lengths of
  numerator and denominator leave two candidates.
\<close>

definition ilog2 :: "rat \<Rightarrow> int" where
  "ilog2 x = (let (p, q) = quotient_of x; d = bitlen p - bitlen q
              in if pow2 d \<le> x then d else d - 1)"

definition round_half_even :: "rat \<Rightarrow> int" where
  "round_half_even z =
     (let f = \<lfloor>z\<rfloor>; r = z - of_int f
      in if r < 1 / 2 then f else if 1 / 2 < r then f + 1 else if even f then f else f + 1)"

text \<open>
  Rounding of an exact result to binary64, to nearest with ties to even. The spacing of
  the doubles around \<open>x\<close> is \<open>2^(e - 52)\<close>, where \<open>e\<close> is the exponent of \<open>x\<close> and at least
  \<open>-1022\<close> (below that the numbers are subnormal); \<open>x\<close> is rounded to a multiple of the
  spacing. A result of magnitude \<open>2^1024\<close> overflows to an infinity, and a non-zero \<open>x\<close> that
  rounds to zero keeps its sign.
\<close>

definition rnd :: "rat \<Rightarrow> float" where
  "rnd x =
     (if x = 0 then Finite 0
      else let e = max (ilog2 \<bar>x\<bar>) (- 1022);
               q = pow2 (e - 52);
               y = of_int (round_half_even (x / q)) * q
           in if pow2 1024 \<le> \<bar>y\<bar> then (if 0 < x then PInf else NInf)
              else if y = 0 then (if x < 0 then NegZero else Finite 0)
              else Finite y)"

fun fneg :: "float \<Rightarrow> float" where
  "fneg (Finite x) = (if x = 0 then NegZero else Finite (- x))"
| "fneg NegZero = Finite 0"
| "fneg PInf = NInf"
| "fneg NInf = PInf"
| "fneg NaN = NaN"

text \<open>
  Python's \<open><\<close>, \<open><=\<close>, \<open>+\<close> and \<open>-\<close> on floats. A comparison with NaN is false; the two zeros
  compare equal; the sum of the two infinities is NaN; a sum that is exactly zero is
  \<open>+0.0\<close>, except that of two negative zeros.
\<close>

instantiation float :: "{ord, plus, minus}"
begin

definition less_float :: "float \<Rightarrow> float \<Rightarrow> bool" where
  "less_float a b =
     (if a = NaN \<or> b = NaN then False
      else if a = PInf \<or> b = NInf then False
      else if a = NInf \<or> b = PInf then True
      else val a < val b)"

definition less_eq_float :: "float \<Rightarrow> float \<Rightarrow> bool" where
  "less_eq_float a b = (a \<noteq> NaN \<and> b \<noteq> NaN \<and> \<not> b < a)"

definition plus_float :: "float \<Rightarrow> float \<Rightarrow> float" where
  "plus_float a b =
     (if a = NaN \<or> b = NaN then NaN
      else if a = PInf then (if b = NInf then NaN else PInf)
      else if a = NInf then (if b = PInf then NaN else NInf)
      else if b = PInf then PInf
      else if b = NInf then NInf
      else if a = NegZero then b
      else if b = NegZero then a
      else rnd (val a + val b))"

definition minus_float :: "float \<Rightarrow> float \<Rightarrow> float" where
  "minus_float a b = a + fneg b"

instance ..

end

text \<open>
  Python's \<open>a / n\<close> for a float \<open>a\<close> and an integer \<open>0 < n \<le> 2^53\<close>, which converts to a
  float exactly. The source divides by 12700 only.
\<close>

definition truediv :: "float \<Rightarrow> int \<Rightarrow> float" where
  "truediv a n =
     (case a of
        Finite x \<Rightarrow> rnd (x / of_int n)
      | NegZero \<Rightarrow> NegZero
      | PInf \<Rightarrow> PInf
      | NInf \<Rightarrow> NInf
      | NaN \<Rightarrow> NaN)"

text \<open>
  SQLite stores a NaN that is bound to a \<open>REAL\<close> column as \<open>NULL\<close>; every other float is
  stored as it is.
\<close>

definition sql_real :: "float \<Rightarrow> float option" where
  "sql_real v = (if v = NaN then None else Some v)"

section \<open>Data model of \<open>src/main.py\<close>\<close>

text \<open>
  The three SQLAlchemy tables are records, a table is the list of its rows in rowid order
  (the order in which \<open>.first()\<close> sees them), and the database is the record of the three
  tables. Primary keys are SQLite integers. A \<open>Float\<close> column is nullable: it holds a float
  other than NaN, or \<open>NULL\<close> (\<open>None\<close>). Time is counted in whole seconds since the epoch.
\<close>

record User =
  u_id :: int
  u_username :: string
  u_hashed_password :: string

record Wallet =
  w_id :: int
  w_user_id :: int
  w_currency :: string
  w_balance :: "float option"

record Transaction =
  t_id :: int
  t_user_id :: int
  t_amount :: "float option"
  t_currency :: string
  t_transaction_type :: string
  t_recipient_wallet_id :: "int option"
  t_timestamp :: int

record db_state =
  users :: "User list"
  wallets :: "Wallet list"
  transactions :: "Transaction list"

text \<open>The request bodies (pydantic models) and the login form.\<close>

record UserCreate =
  uc_username :: string
  uc_password :: string

record TransactionCreate =
  tc_amount :: float
  tc_currency :: string
  tc_transaction_type :: string
  tc_recipient_wallet_id :: "int option"

record ConversionRequest =
  amount_uzs :: float

record OAuth2PasswordRequestForm =
  form_username :: string
  form_password :: string

record ConversionOut =
  uzs_amount :: float
  usdt_amount :: float

text \<open>
  What a handler raises is the left summand of its result: an \<open>HTTPException\<close> with its
  status code and detail, or the \<open>TypeError\<close> of Python for arithmetic or comparison on
  \<open>None\<close>, which the handlers do not catch. The right summand is the value the handler
  returns; what FastAPI makes of that value (\<open>response_model\<close>, JSON) is not modelled.
\<close>

datatype exception = HTTPException (status_code: nat) (detail: string) | TypeError

definition credentials_exception :: exception where
  "credentials_exception = HTTPException 401 ''Could not validate credentials''"

definition empty_db :: db_state where
  "empty_db = \<lparr>users = [], wallets = [], transactions = []\<rparr>"

text \<open>
  An \<open>INTEGER PRIMARY KEY\<close> column without a value gets 1 in an empty table and the
  largest key plus one otherwise.
\<close>

definition next_id :: "int list \<Rightarrow> int" where
  "next_id ids = (case ids of [] \<Rightarrow> 1 | x # xs \<Rightarrow> fold max xs x + 1)"

text \<open>The operators of the handlers on an attribute that may be \<open>None\<close>.\<close>

definition py_less :: "float option \<Rightarrow> float \<Rightarrow> exception + bool" where
  "py_less balance amount = (case balance of None \<Rightarrow> Inl TypeError | Some b \<Rightarrow> Inr (b < amount))"

definition py_add :: "float option \<Rightarrow> float \<Rightarrow> exception + float" where
  "py_add balance amount = (case balance of None \<Rightarrow> Inl TypeError | Some b \<Rightarrow> Inr (b + amount))"

definition py_sub :: "float option \<Rightarrow> float \<Rightarrow> exception + float" where
  "py_sub balance amount = (case balance of None \<Rightarrow> Inl TypeError | Some b \<Rightarrow> Inr (b - amount))"

section \<open>Security functions\<close>

text \<open>
  \<open>pwd_context\<close> is passlib's bcrypt context, an external library: its two functions are
  parameters of the model. \<open>pc_hash\<close> stands for the (salted) hash that one call returns.
\<close>

record pwd_context =
  pc_hash :: "string \<Rightarrow> string"
  pc_verify :: "string \<Rightarrow> string \<Rightarrow> bool"

definition verify_password :: "pwd_context \<Rightarrow> string \<Rightarrow> string \<Rightarrow> bool" where
  "verify_password ctx plain_password hashed_password = pc_verify ctx plain_password hashed_password"

definition get_password_hash :: "pwd_context \<Rightarrow> string \<Rightarrow> string" where
  "get_password_hash ctx password = pc_hash ctx password"

definition SECRET_KEY :: string where
  "SECRET_KEY = ''your-secret-key-1234567890''"

definition ACCESS_TOKEN_EXPIRE_MINUTES :: int where
  "ACCESS_TOKEN_EXPIRE_MINUTES = 30"

text \<open>The claims of a token: the code only ever writes \<open>sub\<close> and \<open>exp\<close>.\<close>

record claims =
  sub :: "string option"
  exp :: "int option"

text \<open>
  Modelled from the spec: \<open>jwt.encode\<close> and \<open>jwt.decode\<close> of the library \<open>jose\<close>, which is
  not under \<open>src/\<close>. The specification describes the credential as encoding the identity and
  an expiry timestamp, signed so that it cannot be forged or altered, and rejected when the
  signature is invalid, when it is malformed, or when it is expired. A bearer string is
  therefore either a set of claims signed with some key, or a string that is no token at
  all; decoding fails (\<open>JWTError\<close>) on a malformed string, on a signature of another key, and
  when the \<open>exp\<close> claim lies before the current time.
\<close>

datatype token = Signed string claims | Malformed string

datatype JWTError = JWTError

definition jwt_encode :: "claims \<Rightarrow> string \<Rightarrow> token" where
  "jwt_encode to_encode key = Signed key to_encode"

definition jwt_decode :: "int \<Rightarrow> token \<Rightarrow> string \<Rightarrow> JWTError + claims" where
  "jwt_decode now tok key =
     (case tok of
        Malformed s \<Rightarrow> Inl JWTError
      | Signed k payload \<Rightarrow>
          if k \<noteq> key then Inl JWTError
          else (case exp payload of
                  None \<Rightarrow> Inr payload
                | Some e \<Rightarrow> if e < now then Inl JWTError else Inr payload))"

definition create_access_token :: "int \<Rightarrow> claims \<Rightarrow> token" where
  "create_access_token now data =
     (let to_encode = data;
          expire = now + ACCESS_TOKEN_EXPIRE_MINUTES * 60;
          to_encode = to_encode\<lparr>exp := Some expire\<rparr>;
          encoded_jwt = jwt_encode to_encode SECRET_KEY
      in encoded_jwt)"

definition get_current_user :: "int \<Rightarrow> token \<Rightarrow> db_state \<Rightarrow> exception + User" where
  "get_current_user now tok db =
     (case jwt_decode now tok SECRET_KEY of
        Inl e \<Rightarrow> Inl credentials_exception
      | Inr payload \<Rightarrow>
          (case sub payload of
             None \<Rightarrow> Inl credentials_exception
           | Some username \<Rightarrow>
               (case find (\<lambda>u. u_username u = username) (users db) of
                  None \<Rightarrow> Inl credentials_exception
                | Some user \<Rightarrow> Inr user)))"

section \<open>Conversion\<close>

definition convert_uzs_to_usdt :: "float \<Rightarrow> float" where
  "convert_uzs_to_usdt amount = (let exchange_rate = 12700 in truediv amount exchange_rate)"

section \<open>Endpoints\<close>

definition create_user :: "pwd_context \<Rightarrow> UserCreate \<Rightarrow> db_state \<Rightarrow> (exception + User) \<times> db_state" where
  "create_user ctx user db =
     (case find (\<lambda>u. u_username u = uc_username user) (users db) of
        Some db_user \<Rightarrow> (Inl (HTTPException 400 ''Username already registered''), db)
      | None \<Rightarrow>
          (let hashed_password = get_password_hash ctx (uc_password user);
               db_user = \<lparr>u_id = next_id (map u_id (users db)),
                          u_username = uc_username user,
                          u_hashed_password = hashed_password\<rparr>;
               db1 = db\<lparr>users := users db @ [db_user]\<rparr>;
               wallet = \<lparr>w_id = next_id (map w_id (wallets db1)),
                         w_user_id = u_id db_user,
                         w_currency = ''USDT'',
                         w_balance = sql_real (Finite 0)\<rparr>;
               db2 = db1\<lparr>wallets := wallets db1 @ [wallet]\<rparr>
           in (Inr db_user, db2)))"

record Token =
  access_token :: token
  token_type :: string

definition login :: "pwd_context \<Rightarrow> int \<Rightarrow> OAuth2PasswordRequestForm \<Rightarrow> db_state \<Rightarrow> exception + Token" where
  "login ctx now form_data db =
     (case find (\<lambda>u. u_username u = form_username form_data) (users db) of
        None \<Rightarrow> Inl (HTTPException 401 ''Incorrect username or password'')
      | Some user \<Rightarrow>
          if \<not> verify_password ctx (form_password form_data) (u_hashed_password user)
          then Inl (HTTPException 401 ''Incorrect username or password'')
          else Inr \<lparr>access_token = create_access_token now \<lparr>sub = Some (u_username user), exp = None\<rparr>,
                    token_type = ''bearer''\<rparr>)"

definition get_wallets :: "User \<Rightarrow> db_state \<Rightarrow> Wallet list" where
  "get_wallets current_user db = filter (\<lambda>w. w_user_id w = u_id current_user) (wallets db)"

text \<open>
  The commit writes the balance that a wallet object holds to the row with its primary
  key, and inserts the new transaction; the handler returns the transaction as the
  database holds it after the commit.
\<close>

definition set_balance :: "int \<Rightarrow> float \<Rightarrow> db_state \<Rightarrow> db_state" where
  "set_balance wid v db =
     db\<lparr>wallets := map (\<lambda>w. if w_id w = wid then w\<lparr>w_balance := sql_real v\<rparr> else w) (wallets db)\<rparr>"

definition add_transaction ::
  "int \<Rightarrow> int \<Rightarrow> float \<Rightarrow> string \<Rightarrow> string \<Rightarrow> int option \<Rightarrow> db_state \<Rightarrow> Transaction \<times> db_state" where
  "add_transaction now user_id amount currency transaction_type recipient_wallet_id db =
     (let db_transaction = \<lparr>t_id = next_id (map t_id (transactions db)),
                             t_user_id = user_id,
                             t_amount = sql_real amount,
                             t_currency = currency,
                             t_transaction_type = transaction_type,
                             t_recipient_wallet_id = recipient_wallet_id,
                             t_timestamp = now\<rparr>
      in (db_transaction, db\<lparr>transactions := transactions db @ [db_transaction]\<rparr>))"

text \<open>
  A wallet loaded by a query is an object of the session, one per primary key: when the
  recipient of a transfer is the sender's own wallet, \<open>recipient_wallet\<close> is the object
  \<open>wallet\<close>, and its balance at the credit is the balance that the debit has left.
\<close>

definition create_transaction ::
  "int \<Rightarrow> TransactionCreate \<Rightarrow> User \<Rightarrow> db_state \<Rightarrow> (exception + Transaction) \<times> db_state" where
  "create_transaction now transaction current_user db =
     (let commit = (\<lambda>db'. case add_transaction now (u_id current_user) (tc_amount transaction)
                              (tc_currency transaction) (tc_transaction_type transaction)
                              (tc_recipient_wallet_id transaction) db' of
                            (db_transaction, db'') \<Rightarrow> (Inr db_transaction, db''))
      in
      case find (\<lambda>w. w_user_id w = u_id current_user \<and> w_currency w = tc_currency transaction) (wallets db) of
        None \<Rightarrow> (Inl (HTTPException 400 ''Wallet not found''), db)
      | Some wallet \<Rightarrow>
          if tc_transaction_type transaction = ''deposit'' then
            (case py_add (w_balance wallet) (tc_amount transaction) of
               Inl e \<Rightarrow> (Inl e, db)
             | Inr balance \<Rightarrow> commit (set_balance (w_id wallet) balance db))
          else if tc_transaction_type transaction = ''withdrawal'' then
            (case py_less (w_balance wallet) (tc_amount transaction) of
               Inl e \<Rightarrow> (Inl e, db)
             | Inr insufficient \<Rightarrow>
                 if insufficient then (Inl (HTTPException 400 ''Insufficient balance''), db)
                 else (case py_sub (w_balance wallet) (tc_amount transaction) of
                         Inl e \<Rightarrow> (Inl e, db)
                       | Inr balance \<Rightarrow> commit (set_balance (w_id wallet) balance db)))
          else if tc_transaction_type transaction = ''transfer'' then
            (case py_less (w_balance wallet) (tc_amount transaction) of
               Inl e \<Rightarrow> (Inl e, db)
             | Inr insufficient \<Rightarrow>
                 if insufficient then (Inl (HTTPException 400 ''Insufficient balance''), db)
                 else
                   (case find (\<lambda>w. Some (w_id w) = tc_recipient_wallet_id transaction) (wallets db) of
                      None \<Rightarrow> (Inl (HTTPException 400 ''Recipient wallet not found''), db)
                    | Some recipient_wallet \<Rightarrow>
                        (case py_sub (w_balance wallet) (tc_amount transaction) of
                           Inl e \<Rightarrow> (Inl e, db)
                         | Inr balance \<Rightarrow>
                             (case py_add (if w_id recipient_wallet = w_id wallet then Some balance
                                           else w_balance recipient_wallet) (tc_amount transaction) of
                                Inl e \<Rightarrow> (Inl e, db)
                              | Inr recipient_balance \<Rightarrow>
                                  commit (set_balance (w_id recipient_wallet) recipient_balance
                                            (set_balance (w_id wallet) balance db))))))
          else (Inl (HTTPException 400 ''Invalid transaction type''), db))"

definition get_transactions :: "User \<Rightarrow> db_state \<Rightarrow> Transaction list" where
  "get_transactions current_user db = filter (\<lambda>t. t_user_id t = u_id current_user) (transactions db)"

definition convert_currency ::
  "int \<Rightarrow> ConversionRequest \<Rightarrow> User \<Rightarrow> db_state \<Rightarrow> (exception + ConversionOut) \<times> db_state" where
  "convert_currency now conversion current_user db =
     (let usdt = convert_uzs_to_usdt (amount_uzs conversion) in
      case find (\<lambda>w. w_user_id w = u_id current_user \<and> w_currency w = ''USDT'') (wallets db) of
        None \<Rightarrow> (Inl (HTTPException 400 ''USDT wallet not found''), db)
      | Some wallet \<Rightarrow>
          (case py_add (w_balance wallet) usdt of
             Inl e \<Rightarrow> (Inl e, db)
           | Inr balance \<Rightarrow>
               (case add_transaction now (u_id current_user) usdt ''USDT'' ''deposit'' None
                       (set_balance (w_id wallet) balance db) of
                  (db_transaction, db') \<Rightarrow>
                    (Inr \<lparr>uzs_amount = amount_uzs conversion, usdt_amount = usdt\<rparr>, db'))))"

text \<open>
  The routes as a caller reaches them: FastAPI evaluates \<open>Depends(get_current_user)\<close> on
  the bearer token first and calls the handler only with the user it returns.
\<close>

definition authorized ::
  "int \<Rightarrow> token \<Rightarrow> (User \<Rightarrow> db_state \<Rightarrow> (exception + 'a) \<times> db_state)
     \<Rightarrow> db_state \<Rightarrow> (exception + 'a) \<times> db_state" where
  "authorized now tok handler db =
     (case get_current_user now tok db of
        Inl e \<Rightarrow> (Inl e, db)
      | Inr current_user \<Rightarrow> handler current_user db)"

definition post_transactions ::
  "int \<Rightarrow> token \<Rightarrow> TransactionCreate \<Rightarrow> db_state \<Rightarrow> (exception + Transaction) \<times> db_state" where
  "post_transactions now tok transaction db = authorized now tok (create_transaction now transaction) db"

definition post_convert ::
  "int \<Rightarrow> token \<Rightarrow> ConversionRequest \<Rightarrow> db_state \<Rightarrow> (exception + ConversionOut) \<times> db_state" where
  "post_convert now tok conversion db = authorized now tok (convert_currency now conversion) db"

section \<open>Sequences of requests\<close>

text \<open>
  The requests that change the database, each taken at the time it arrives; of a request
  only the database it leaves is kept.
\<close>

datatype request =
    PostUsers UserCreate
  | PostTransactions token TransactionCreate
  | PostConvert token ConversionRequest

fun handle :: "pwd_context \<Rightarrow> int \<times> request \<Rightarrow> db_state \<Rightarrow> db_state" where
  "handle ctx (now, PostUsers user) db = snd (create_user ctx user db)"
| "handle ctx (now, PostTransactions tok transaction) db = snd (post_transactions now tok transaction db)"
| "handle ctx (now, PostConvert tok conversion) db = snd (post_convert now tok conversion db)"

definition run :: "pwd_context \<Rightarrow> (int \<times> request) list \<Rightarrow> db_state \<Rightarrow> db_state" where
  "run ctx reqs db = fold (handle ctx) reqs db"


section \<open>Properties of a database state\<close>

text \<open>
  The constraints of the schema that the endpoints rely on: primary keys and usernames
  are unique, and the owner of a wallet is a row of \<open>users\<close>.
\<close>

definition db_ok :: "db_state \<Rightarrow> bool" where
  "db_ok db \<longleftrightarrow>
     distinct (map u_id (users db)) \<and>
     distinct (map u_username (users db)) \<and>
     distinct (map w_id (wallets db)) \<and>
     (\<forall>w \<in> set (wallets db). w_user_id w \<in> set (map u_id (users db)))"

text \<open>Every wallet is in the settlement currency: \<open>create_user\<close> creates no other.\<close>

definition only_usdt :: "db_state \<Rightarrow> bool" where
  "only_usdt db \<longleftrightarrow> (\<forall>w \<in> set (wallets db). w_currency w = ''USDT'')"

text \<open>\<open>balance >= 0\<close>, as Python evaluates it: false for NaN; a \<open>NULL\<close> balance is no number.\<close>

definition nonneg :: "float option \<Rightarrow> bool" where
  "nonneg balance = (case balance of None \<Rightarrow> False | Some b \<Rightarrow> Finite 0 \<le> b)"

definition nonneg_balances :: "db_state \<Rightarrow> bool" where
  "nonneg_balances db \<longleftrightarrow> (\<forall>w \<in> set (wallets db). nonneg (w_balance w))"






definition wallet_by_id :: "int \<Rightarrow> db_state \<Rightarrow> Wallet option" where
  "wallet_by_id wid db = find (\<lambda>w. w_id w = wid) (wallets db)"

section \<open>Concrete states used to instantiate the theorems\<close>

text \<open>A password context that satisfies the contract of a hash: a hash verifies its password.\<close>

definition demo_ctx :: pwd_context where
  "demo_ctx = \<lparr>pc_hash = (\<lambda>p. ''$'' @ p), pc_verify = (\<lambda>p h. h = ''$'' @ p)\<rparr>"

definition alice :: User where
  "alice = \<lparr>u_id = 1, u_username = ''alice'', u_hashed_password = ''$pw''\<rparr>"

definition bob :: User where
  "bob = \<lparr>u_id = 2, u_username = ''bob'', u_hashed_password = ''$secret''\<rparr>"

text \<open>Two users; alice holds \<open>balance\<close> and bob holds nothing.\<close>

definition db_two :: "float \<Rightarrow> db_state" where
  "db_two balance = \<lparr>users = [alice, bob],
             wallets = [\<lparr>w_id = 1, w_user_id = 1, w_currency = ''USDT'', w_balance = Some balance\<rparr>,
                        \<lparr>w_id = 2, w_user_id = 2, w_currency = ''USDT'', w_balance = Some (Finite 0)\<rparr>],
             transactions = []\<rparr>"

definition alice_token :: token where
  "alice_token = create_access_token 0 \<lparr>sub = Some ''alice'', exp = None\<rparr>"


section \<open>Lemmas about lists and keys\<close>

lemma find_Some_mem: "find P xs = Some x \<Longrightarrow> x \<in> set xs \<and> P x"
  by (induction xs) (auto split: if_splits)

lemma find_None_conv: "find P xs = None \<longleftrightarrow> (\<forall>x \<in> set xs. \<not> P x)"
  by (induction xs) auto

lemma find_append_fresh:
  "\<forall>x \<in> set xs. \<not> P x \<Longrightarrow> P y \<Longrightarrow> find P (xs @ [y]) = Some y"
  by (induction xs) auto

lemma fold_max_ge: "(a::int) \<le> fold max xs a \<and> (\<forall>x \<in> set xs. x \<le> fold max xs a)"
proof (induction xs arbitrary: a)
  case Nil
  then show ?case by simp
next
  case (Cons y ys)
  have "max y a \<le> fold max ys (max y a)" and "\<forall>x \<in> set ys. x \<le> fold max ys (max y a)"
    using Cons.IH [of "max y a"] by simp_all
  then show ?case by auto
qed

lemma next_id_greater: "x \<in> set ids \<Longrightarrow> x < next_id ids"
proof (cases ids)
  case Nil
  assume "x \<in> set ids"
  with Nil show ?thesis by simp
next
  case (Cons y ys)
  assume "x \<in> set ids"
  with Cons have "x = y \<or> x \<in> set ys" by simp
  then have "x \<le> fold max ys y" using fold_max_ge [of y ys] by auto
  with Cons show ?thesis by (simp add: next_id_def)
qed

lemma next_id_fresh: "next_id ids \<notin> set ids"
  using next_id_greater [of "next_id ids" ids] by auto

lemma same_id_same_row:
  "distinct (map w_id ws) \<Longrightarrow> x \<in> set ws \<Longrightarrow> y \<in> set ws \<Longrightarrow> w_id x = w_id y \<Longrightarrow> x = y"
  by (meson distinct_map inj_onD)

lemma find_by_id:
  "distinct (map w_id ws) \<Longrightarrow> w \<in> set ws \<Longrightarrow> find (\<lambda>x. w_id x = w_id w) ws = Some w"
proof -
  assume d: "distinct (map w_id ws)" and m: "w \<in> set ws"
  then obtain y where y: "find (\<lambda>x. w_id x = w_id w) ws = Some y"
    by (cases "find (\<lambda>x. w_id x = w_id w) ws") (auto simp: find_None_conv)
  then have "y \<in> set ws" "w_id y = w_id w" by (auto dest: find_Some_mem)
  with d m have "y = w" by (metis same_id_same_row)
  with y show ?thesis by simp
qed

section \<open>Lemmas about the sign of float results\<close>










section \<open>Lemmas about the two writes of a commit\<close>

lemma users_set_balance: "users (set_balance i v db) = users db"
  by (simp add: set_balance_def)

lemma transactions_set_balance: "transactions (set_balance i v db) = transactions db"
  by (simp add: set_balance_def)

lemma ids_set_balance: "map w_id (wallets (set_balance i v db)) = map w_id (wallets db)"
  by (simp add: set_balance_def comp_def if_distrib [of w_id] cong: if_cong)

lemma owners_set_balance: "map w_user_id (wallets (set_balance i v db)) = map w_user_id (wallets db)"
  by (simp add: set_balance_def comp_def if_distrib [of w_user_id] cong: if_cong)

lemma currencies_set_balance: "map w_currency (wallets (set_balance i v db)) = map w_currency (wallets db)"
  by (simp add: set_balance_def comp_def if_distrib [of w_currency] cong: if_cong)

lemma add_transaction_state:
  "users (snd (add_transaction now uid a c k r db)) = users db"
  "wallets (snd (add_transaction now uid a c k r db)) = wallets db"
  "transactions (snd (add_transaction now uid a c k r db)) = transactions db @ [fst (add_transaction now uid a c k r db)]"
  by (simp_all add: add_transaction_def Let_def)

lemma add_transaction_entry:
  "t_user_id (fst (add_transaction now uid a c k r db)) = uid"
  "t_amount (fst (add_transaction now uid a c k r db)) = sql_real a"
  "t_currency (fst (add_transaction now uid a c k r db)) = c"
  "t_transaction_type (fst (add_transaction now uid a c k r db)) = k"
  "t_recipient_wallet_id (fst (add_transaction now uid a c k r db)) = r"
  "t_timestamp (fst (add_transaction now uid a c k r db)) = now"
  by (simp_all add: add_transaction_def Let_def)

lemma db_ok_alt:
  "db_ok db \<longleftrightarrow> distinct (map u_id (users db)) \<and> distinct (map u_username (users db)) \<and>
     distinct (map w_id (wallets db)) \<and> set (map w_user_id (wallets db)) \<subseteq> set (map u_id (users db))"
  by (auto simp: db_ok_def)

lemma db_ok_set_balance: "db_ok (set_balance i v db) = db_ok db"
  unfolding db_ok_alt ids_set_balance owners_set_balance users_set_balance ..

lemma db_ok_add_transaction: "db_ok (snd (add_transaction now uid a c k r db)) = db_ok db"
  by (simp add: db_ok_def add_transaction_state)

lemma only_usdt_alt: "only_usdt db \<longleftrightarrow> set (map w_currency (wallets db)) \<subseteq> {''USDT''}"
  unfolding only_usdt_def by (simp only: set_map image_subset_iff singleton_iff)

lemma only_usdt_set_balance: "only_usdt (set_balance i v db) = only_usdt db"
  unfolding only_usdt_alt currencies_set_balance ..

lemma only_usdt_add_transaction: "only_usdt (snd (add_transaction now uid a c k r db)) = only_usdt db"
  by (simp add: only_usdt_def add_transaction_state)



lemma wallet_by_id_set_balance:
  "wallet_by_id i (set_balance j v db)
     = (if i = j then map_option (\<lambda>w. w\<lparr>w_balance := sql_real v\<rparr>) (wallet_by_id i db)
        else wallet_by_id i db)"
proof -
  have *: "find (\<lambda>w. w_id w = i) (map (\<lambda>w. if w_id w = j then w\<lparr>w_balance := b\<rparr> else w) ws)
        = map_option (\<lambda>w. if w_id w = j then w\<lparr>w_balance := b\<rparr> else w) (find (\<lambda>w. w_id w = i) ws)" for ws b
    by (induction ws) auto
  show ?thesis
  proof (cases "find (\<lambda>w. w_id w = i) (wallets db)")
    case None
    then show ?thesis by (auto simp: wallet_by_id_def set_balance_def *)
  next
    case (Some w)
    then have "w_id w = i" by (auto dest: find_Some_mem)
    with Some show ?thesis by (auto simp: wallet_by_id_def set_balance_def *)
  qed
qed

lemma wallet_by_id_add_transaction:
  "wallet_by_id i (snd (add_transaction now uid a c k r db)) = wallet_by_id i db"
  by (simp add: wallet_by_id_def add_transaction_state)

lemma wallet_by_id_found:
  "db_ok db \<Longrightarrow> w \<in> set (wallets db) \<Longrightarrow> wallet_by_id (w_id w) db = Some w"
  by (simp add: wallet_by_id_def db_ok_def find_by_id)

section \<open>What the handlers preserve\<close>

lemma create_transaction_db_ok:
  "db_ok db \<Longrightarrow> db_ok (snd (create_transaction now transaction current_user db))"
  by (simp add: create_transaction_def Let_def case_prod_beta db_ok_add_transaction
      db_ok_set_balance split: option.splits sum.splits)

lemma convert_currency_db_ok:
  "db_ok db \<Longrightarrow> db_ok (snd (convert_currency now conversion current_user db))"
  by (simp add: convert_currency_def Let_def case_prod_beta db_ok_add_transaction
      db_ok_set_balance split: option.splits sum.splits)
lemma create_user_db_ok:
  assumes "db_ok db"
  shows "db_ok (snd (create_user ctx user db))"
proof (cases "find (\<lambda>u. u_username u = uc_username user) (users db)")
  case (Some u)
  with assms show ?thesis by (simp add: create_user_def)
next
  case None
  then have "uc_username user \<notin> set (map u_username (users db))"
    by (auto simp: find_None_conv)
  moreover have "next_id (map u_id (users db)) \<notin> set (map u_id (users db))"
    and "next_id (map w_id (wallets db)) \<notin> set (map w_id (wallets db))"
    by (rule next_id_fresh)+
  ultimately show ?thesis
    using assms None by (auto simp: create_user_def Let_def db_ok_def)
qed

lemma create_transaction_only_usdt:
  "only_usdt db \<Longrightarrow> only_usdt (snd (create_transaction now transaction current_user db))"
  by (simp add: create_transaction_def Let_def case_prod_beta only_usdt_add_transaction
      only_usdt_set_balance split: option.splits sum.splits)

lemma convert_currency_only_usdt:
  "only_usdt db \<Longrightarrow> only_usdt (snd (convert_currency now conversion current_user db))"
  by (simp add: convert_currency_def Let_def case_prod_beta only_usdt_add_transaction
      only_usdt_set_balance split: option.splits sum.splits)

lemma create_user_only_usdt:
  "only_usdt db \<Longrightarrow> only_usdt (snd (create_user ctx user db))"
  by (simp add: create_user_def Let_def only_usdt_def split: option.splits)




lemma authorized_preserves:
  "P db \<Longrightarrow> (\<And>current_user. P (snd (handler current_user db))) \<Longrightarrow> P (snd (authorized now tok handler db))"
  by (simp add: authorized_def split: sum.splits)

lemma handle_db_ok: "db_ok db \<Longrightarrow> db_ok (handle ctx req db)"
proof (cases req)
  case (Pair now r)
  assume ok: "db_ok db"
  show ?thesis
  proof (cases r)
    case (PostUsers user)
    with Pair ok show ?thesis by (simp add: create_user_db_ok)
  next
    case (PostTransactions tok transaction)
    with Pair ok show ?thesis
      by (simp add: post_transactions_def authorized_preserves create_transaction_db_ok)
  next
    case (PostConvert tok conversion)
    with Pair ok show ?thesis
      by (simp add: post_convert_def authorized_preserves convert_currency_db_ok)
  qed
qed

lemma handle_only_usdt: "only_usdt db \<Longrightarrow> only_usdt (handle ctx req db)"
proof (cases req)
  case (Pair now r)
  assume u: "only_usdt db"
  show ?thesis
  proof (cases r)
    case (PostUsers user)
    with Pair u show ?thesis by (simp add: create_user_only_usdt)
  next
    case (PostTransactions tok transaction)
    with Pair u show ?thesis
      by (simp add: post_transactions_def authorized_preserves create_transaction_only_usdt)
  next
    case (PostConvert tok conversion)
    with Pair u show ?thesis
      by (simp add: post_convert_def authorized_preserves convert_currency_only_usdt)
  qed
qed


lemma run_db_ok: "db_ok db \<Longrightarrow> db_ok (run ctx reqs db)"
  unfolding run_def by (induction reqs arbitrary: db) (simp_all add: handle_db_ok)

lemma run_only_usdt: "only_usdt db \<Longrightarrow> only_usdt (run ctx reqs db)"
  unfolding run_def by (induction reqs arbitrary: db) (simp_all add: handle_only_usdt)

lemma empty_db_ok: "db_ok empty_db \<and> only_usdt empty_db \<and> nonneg_balances empty_db"
  by (simp add: db_ok_def only_usdt_def nonneg_balances_def empty_db_def)

text \<open>
  Every state that requests produce from the empty database satisfies \<open>db_ok\<close> and
  \<open>only_usdt\<close>, the two hypotheses on states used below.
\<close>

lemma produced_states_ok: "db_ok (run ctx reqs empty_db) \<and> only_usdt (run ctx reqs empty_db)"
  by (simp add: run_db_ok run_only_usdt empty_db_ok)

section \<open>What an applied request writes\<close>




lemma conversion_applied:
  assumes "find (\<lambda>w. w_user_id w = u_id current_user \<and> w_currency w = ''USDT'') (wallets db) = Some wallet"
    and "w_balance wallet = Some b"
  shows "convert_currency now conversion current_user db
         = (Inr \<lparr>uzs_amount = amount_uzs conversion, usdt_amount = truediv (amount_uzs conversion) 12700\<rparr>,
            snd (add_transaction now (u_id current_user) (truediv (amount_uzs conversion) 12700) ''USDT''
                        ''deposit'' None
                        (set_balance (w_id wallet) (b + truediv (amount_uzs conversion) 12700) db)))"
  using assms by (simp add: convert_currency_def convert_uzs_to_usdt_def Let_def case_prod_beta py_add_def)

lemma fixture_ok: "db_ok (db_two b) \<and> only_usdt (db_two b)"
  by (simp add: db_ok_def only_usdt_def db_two_def alice_def bob_def)

lemma alice_wallet:
  "find (\<lambda>w. w_user_id w = u_id alice \<and> w_currency w = ''USDT'') (wallets (db_two b))
     = Some \<lparr>w_id = 1, w_user_id = 1, w_currency = ''USDT'', w_balance = Some b\<rparr>"
  by (simp add: db_two_def alice_def)

lemma bob_wallet:
  "find (\<lambda>w. w_user_id w = u_id bob \<and> w_currency w = ''USDT'') (wallets (db_two b))
     = Some \<lparr>w_id = 2, w_user_id = 2, w_currency = ''USDT'', w_balance = Some (Finite 0)\<rparr>"
  by (simp add: db_two_def bob_def)


section \<open>Lemmas about the sum of the balances\<close>




section \<open>The claims\<close>










text \<open>
  Claim C4. A withdrawal or a transfer that asks for more than the balance of the sender's
  wallet is rejected with "Insufficient balance" (status 400), and the database after the
  rejection is the database before it: no balance has changed and no ledger entry has been
  appended. For a transfer the balance is checked before the recipient is looked up.
\<close>

theorem insufficient_balance_rejected:
  assumes "find (\<lambda>w. w_user_id w = u_id current_user \<and> w_currency w = tc_currency transaction) (wallets db) = Some wallet"
    and "w_balance wallet = Some balance"
    and "balance < tc_amount transaction"
    and "tc_transaction_type transaction = ''withdrawal'' \<or> tc_transaction_type transaction = ''transfer''"
  shows "create_transaction now transaction current_user db = (Inl (HTTPException 400 ''Insufficient balance''), db)"
  using assms by (auto simp: create_transaction_def Let_def py_less_def)

text \<open>
  An instance: alice holds 100 and asks to withdraw 150.
\<close>

theorem insufficient_balance_rejected_witness:
  "create_transaction 5 \<lparr>tc_amount = Finite 150, tc_currency = ''USDT'',
       tc_transaction_type = ''withdrawal'', tc_recipient_wallet_id = None\<rparr> alice (db_two (Finite 100))
   = (Inl (HTTPException 400 ''Insufficient balance''), db_two (Finite 100))"
proof -
  let ?wd = "\<lparr>tc_amount = Finite 150, tc_currency = ''USDT'',
       tc_transaction_type = ''withdrawal'', tc_recipient_wallet_id = None\<rparr>"
  let ?w = "\<lparr>w_id = 1, w_user_id = 1, w_currency = ''USDT'', w_balance = Some (Finite 100)\<rparr>"
  have f: "find (\<lambda>w. w_user_id w = u_id alice \<and> w_currency w = tc_currency ?wd) (wallets (db_two (Finite 100))) = Some ?w"
    by (simp add: alice_wallet)
  have b: "w_balance ?w = Some (Finite 100)" by simp
  have l: "Finite 100 < tc_amount ?wd" by (simp add: less_float_def)
  have k: "tc_transaction_type ?wd = ''withdrawal'' \<or> tc_transaction_type ?wd = ''transfer''" by simp
  show ?thesis by (rule insufficient_balance_rejected [OF f b l k])
qed

text \<open>
  Claim C5 (as amended). For every source amount (the code does not ask for a positive
  one), a conversion by a user who has a USDT wallet with a balance computes the
  settlement amount as the binary64 quotient of the source amount by 12700 (for 12700 UZS
  that is exactly 1.0), returns it, adds it to the balance of that wallet in binary64 and
  changes no other wallet, and appends exactly one ledger entry, whose amount is the
  settlement amount and whose currency is USDT. The kind of that entry is \<open>deposit\<close>: the
  code has no separate kind for a conversion.
\<close>

theorem convert_currency_effect:
  assumes ok: "db_ok db"
    and found: "find (\<lambda>w. w_user_id w = u_id current_user \<and> w_currency w = ''USDT'') (wallets db) = Some wallet"
    and bal: "w_balance wallet = Some b"
  shows "\<exists>entry db'.
           convert_currency now conversion current_user db
             = (Inr \<lparr>uzs_amount = amount_uzs conversion,
                     usdt_amount = truediv (amount_uzs conversion) 12700\<rparr>, db')
         \<and> wallet_by_id (w_id wallet) db'
             = Some (wallet\<lparr>w_balance := sql_real (b + truediv (amount_uzs conversion) 12700)\<rparr>)
         \<and> (\<forall>i. i \<noteq> w_id wallet \<longrightarrow> wallet_by_id i db' = wallet_by_id i db)
         \<and> transactions db' = transactions db @ [entry]
         \<and> t_transaction_type entry = ''deposit''
         \<and> t_amount entry = sql_real (truediv (amount_uzs conversion) 12700)
         \<and> t_currency entry = ''USDT''
         \<and> t_user_id entry = u_id current_user
         \<and> t_recipient_wallet_id entry = None
         \<and> truediv (Finite 12700) 12700 = Finite 1"
proof -
  let ?q = "truediv (amount_uzs conversion) 12700"
  from found have mem: "wallet \<in> set (wallets db)" by (simp add: find_Some_mem)
  have one: "truediv (Finite 12700) 12700 = Finite 1" by code_simp
  have w1: "wallet_by_id (w_id wallet) (set_balance (w_id wallet) (b + ?q) db)
              = Some (wallet\<lparr>w_balance := sql_real (b + ?q)\<rparr>)"
    using ok mem by (simp add: wallet_by_id_set_balance wallet_by_id_found)
  have w2: "wallet_by_id i (set_balance (w_id wallet) (b + ?q) db) = wallet_by_id i db"
    if "i \<noteq> w_id wallet" for i
    using that by (simp add: wallet_by_id_set_balance)
  show ?thesis
    unfolding conversion_applied [OF found bal] using w1 w2 one
    by (simp add: wallet_by_id_add_transaction add_transaction_state add_transaction_entry
        transactions_set_balance)
qed

text \<open>
  An instance: bob holds 0 and converts 12700 UZS; his wallet then holds exactly 1.
\<close>

theorem convert_currency_effect_witness:
  "db_ok (db_two (Finite 100))
   \<and> fst (convert_currency 7 \<lparr>amount_uzs = Finite 12700\<rparr> bob (db_two (Finite 100)))
       = Inr \<lparr>uzs_amount = Finite 12700, usdt_amount = Finite 1\<rparr>
   \<and> map_option w_balance (wallet_by_id 2 (snd (convert_currency 7 \<lparr>amount_uzs = Finite 12700\<rparr> bob (db_two (Finite 100)))))
       = Some (Some (Finite 1))
   \<and> wallet_by_id 1 (snd (convert_currency 7 \<lparr>amount_uzs = Finite 12700\<rparr> bob (db_two (Finite 100))))
       = wallet_by_id 1 (db_two (Finite 100))
   \<and> length (transactions (snd (convert_currency 7 \<lparr>amount_uzs = Finite 12700\<rparr> bob (db_two (Finite 100))))) = 1"
proof -
  let ?db = "db_two (Finite 100)"
  let ?cv = "\<lparr>amount_uzs = Finite 12700\<rparr>"
  let ?w = "\<lparr>w_id = 2, w_user_id = 2, w_currency = ''USDT'', w_balance = Some (Finite 0)\<rparr>"
  have ok: "db_ok ?db" by (simp add: fixture_ok)
  have f: "find (\<lambda>w. w_user_id w = u_id bob \<and> w_currency w = ''USDT'') (wallets ?db) = Some ?w"
    by (simp add: bob_wallet)
  have b: "w_balance ?w = Some (Finite 0)" by simp
  have s: "sql_real (Finite 0 + Finite 1) = Some (Finite 1)" by code_simp
  from convert_currency_effect [OF ok f b, of 7 ?cv]
  obtain entry db' where
    r: "convert_currency 7 ?cv bob ?db
          = (Inr \<lparr>uzs_amount = Finite 12700, usdt_amount = Finite 1\<rparr>, db')"
    and w: "wallet_by_id 2 db' = Some (?w\<lparr>w_balance := Some (Finite 1)\<rparr>)"
    and o: "\<forall>i. i \<noteq> 2 \<longrightarrow> wallet_by_id i db' = wallet_by_id i ?db"
    and t: "transactions db' = transactions ?db @ [entry]"
    by (auto simp: s)
  from o have "wallet_by_id 1 db' = wallet_by_id 1 ?db" by simp
  moreover from t have "length (transactions db') = 1" by (simp add: db_two_def)
  ultimately show ?thesis using ok r w by simp
qed

text \<open>
  The claim as the specification states it fails twice. Alice registers and converts 1 UZS:
  the entry that the conversion appends has the transaction type \<open>deposit\<close>, not a kind of
  its own; and its amount, which is also her balance, is the double nearest to 1/12700,
  \<open>5809998133451827 / 2^66\<close>, not 1/12700.
\<close>

theorem conversion_counterexample:
  "transactions (run demo_ctx
       [(0, PostUsers \<lparr>uc_username = ''alice'', uc_password = ''pw''\<rparr>),
        (1, PostConvert alice_token \<lparr>amount_uzs = Finite 1\<rparr>)] empty_db)
     = [\<lparr>t_id = 1, t_user_id = 1, t_amount = Some (Finite (5809998133451827 / 73786976294838206464)),
         t_currency = ''USDT'', t_transaction_type = ''deposit'', t_recipient_wallet_id = None,
         t_timestamp = 1\<rparr>]
   \<and> map w_balance (wallets (run demo_ctx
       [(0, PostUsers \<lparr>uc_username = ''alice'', uc_password = ''pw''\<rparr>),
        (1, PostConvert alice_token \<lparr>amount_uzs = Finite 1\<rparr>)] empty_db))
     = [Some (Finite (5809998133451827 / 73786976294838206464))]
   \<and> ''deposit'' \<noteq> ''conversion-deposit''
   \<and> (5809998133451827 / 73786976294838206464 :: rat) \<noteq> 1 / 12700"
  by code_simp




text \<open>
  Claim C7. \<open>create_user\<close> fails with "Username already registered" (status 400) when a
  user with exactly that username exists, and then the database is unchanged (so are the
  stored hash and the wallets of that user). Otherwise, in a state with unique keys whose
  wallets belong to users, it appends the new user, with the hash of the password, under
  a key no user had, and appends one wallet; the wallets of the new user are exactly that
  one wallet, in USDT and with balance 0.
\<close>

theorem create_user_duplicate_or_new:
  "(uc_username user \<in> set (map u_username (users db)) \<longrightarrow>
      create_user ctx user db = (Inl (HTTPException 400 ''Username already registered''), db))
   \<and> (db_ok db \<and> uc_username user \<notin> set (map u_username (users db)) \<longrightarrow>
      (\<exists>registered db'.
         create_user ctx user db = (Inr registered, db')
         \<and> u_username registered = uc_username user
         \<and> u_hashed_password registered = get_password_hash ctx (uc_password user)
         \<and> users db' = users db @ [registered]
         \<and> u_id registered \<notin> set (map u_id (users db))
         \<and> (\<exists>wallet. wallets db' = wallets db @ [wallet]
               \<and> get_wallets registered db' = [wallet]
               \<and> w_currency wallet = ''USDT'' \<and> w_balance wallet = Some (Finite 0))
         \<and> transactions db' = transactions db))"
proof (intro conjI impI)
  assume "uc_username user \<in> set (map u_username (users db))"
  then have "find (\<lambda>u. u_username u = uc_username user) (users db) \<noteq> None"
    by (auto simp: find_None_conv)
  then show "create_user ctx user db = (Inl (HTTPException 400 ''Username already registered''), db)"
    by (auto simp: create_user_def)
next
  assume a: "db_ok db \<and> uc_username user \<notin> set (map u_username (users db))"
  then have "\<forall>u \<in> set (users db). \<not> u_username u = uc_username user" by force
  then have f: "find (\<lambda>u. u_username u = uc_username user) (users db) = None"
    by (simp add: find_None_conv)
  have fresh: "next_id (map u_id (users db)) \<notin> set (map u_id (users db))"
    by (rule next_id_fresh)
  from a have "\<forall>w \<in> set (wallets db). w_user_id w \<in> set (map u_id (users db))"
    by (simp add: db_ok_def)
  with fresh have "\<forall>w \<in> set (wallets db). w_user_id w \<noteq> next_id (map u_id (users db))"
    by metis
  then have none: "filter (\<lambda>w. w_user_id w = next_id (map u_id (users db))) (wallets db) = []"
    by (simp add: filter_empty_conv)
  show "\<exists>registered db'.
         create_user ctx user db = (Inr registered, db')
         \<and> u_username registered = uc_username user
         \<and> u_hashed_password registered = get_password_hash ctx (uc_password user)
         \<and> users db' = users db @ [registered]
         \<and> u_id registered \<notin> set (map u_id (users db))
         \<and> (\<exists>wallet. wallets db' = wallets db @ [wallet]
               \<and> get_wallets registered db' = [wallet]
               \<and> w_currency wallet = ''USDT'' \<and> w_balance wallet = Some (Finite 0))
         \<and> transactions db' = transactions db"
    using f fresh none by (simp add: create_user_def Let_def get_wallets_def sql_real_def)
qed

text \<open>
  Instances: a second registration of \<open>alice\<close> with another password, and a registration
  of \<open>Alice\<close>, which is another username.
\<close>

theorem create_user_duplicate_or_new_witness:
  "create_user demo_ctx \<lparr>uc_username = ''alice'', uc_password = ''pw2''\<rparr> (db_two (Finite 100))
     = (Inl (HTTPException 400 ''Username already registered''), db_two (Finite 100))
   \<and> db_ok (db_two (Finite 100))
   \<and> create_user demo_ctx \<lparr>uc_username = ''Alice'', uc_password = ''pw3''\<rparr> (db_two (Finite 100))
     = (Inr \<lparr>u_id = 3, u_username = ''Alice'', u_hashed_password = ''$pw3''\<rparr>,
        \<lparr>users = [alice, bob, \<lparr>u_id = 3, u_username = ''Alice'', u_hashed_password = ''$pw3''\<rparr>],
         wallets = [\<lparr>w_id = 1, w_user_id = 1, w_currency = ''USDT'', w_balance = Some (Finite 100)\<rparr>,
                    \<lparr>w_id = 2, w_user_id = 2, w_currency = ''USDT'', w_balance = Some (Finite 0)\<rparr>,
                    \<lparr>w_id = 3, w_user_id = 3, w_currency = ''USDT'', w_balance = Some (Finite 0)\<rparr>],
         transactions = []\<rparr>)
   \<and> get_wallets \<lparr>u_id = 3, u_username = ''Alice'', u_hashed_password = ''$pw3''\<rparr>
         (snd (create_user demo_ctx \<lparr>uc_username = ''Alice'', uc_password = ''pw3''\<rparr> (db_two (Finite 100))))
     = [\<lparr>w_id = 3, w_user_id = 3, w_currency = ''USDT'', w_balance = Some (Finite 0)\<rparr>]"
proof -
  let ?db = "db_two (Finite 100)"
  let ?dup = "\<lparr>uc_username = ''alice'', uc_password = ''pw2''\<rparr>"
  let ?new = "\<lparr>uc_username = ''Alice'', uc_password = ''pw3''\<rparr>"
  have ok: "db_ok ?db" by (simp add: fixture_ok)
  have m: "uc_username ?dup \<in> set (map u_username (users ?db))"
    by (simp add: db_two_def alice_def)
  have n: "uc_username ?new \<notin> set (map u_username (users ?db))"
    by (simp add: db_two_def alice_def bob_def)
  have dup: "create_user demo_ctx ?dup ?db = (Inl (HTTPException 400 ''Username already registered''), ?db)"
    using create_user_duplicate_or_new [of ?dup ?db demo_ctx] m by blast
  from create_user_duplicate_or_new [of ?new ?db demo_ctx] ok n
  obtain registered db' wallet where
    r: "create_user demo_ctx ?new ?db = (Inr registered, db')"
    and w: "wallets db' = wallets ?db @ [wallet]" "get_wallets registered db' = [wallet]"
    by auto
  have e: "create_user demo_ctx ?new ?db
     = (Inr \<lparr>u_id = 3, u_username = ''Alice'', u_hashed_password = ''$pw3''\<rparr>,
        \<lparr>users = [alice, bob, \<lparr>u_id = 3, u_username = ''Alice'', u_hashed_password = ''$pw3''\<rparr>],
         wallets = [\<lparr>w_id = 1, w_user_id = 1, w_currency = ''USDT'', w_balance = Some (Finite 100)\<rparr>,
                    \<lparr>w_id = 2, w_user_id = 2, w_currency = ''USDT'', w_balance = Some (Finite 0)\<rparr>,
                    \<lparr>w_id = 3, w_user_id = 3, w_currency = ''USDT'', w_balance = Some (Finite 0)\<rparr>],
         transactions = []\<rparr>)"
    by (simp add: create_user_def get_password_hash_def demo_ctx_def next_id_def db_two_def
        alice_def bob_def sql_real_def Let_def)
  from r e have reg: "registered = \<lparr>u_id = 3, u_username = ''Alice'', u_hashed_password = ''$pw3''\<rparr>"
    and db': "db' = snd (create_user demo_ctx ?new ?db)" by auto
  from w reg db' e
  have "get_wallets \<lparr>u_id = 3, u_username = ''Alice'', u_hashed_password = ''$pw3''\<rparr>
         (snd (create_user demo_ctx ?new ?db))
     = [\<lparr>w_id = 3, w_user_id = 3, w_currency = ''USDT'', w_balance = Some (Finite 0)\<rparr>]"
    by (simp add: db_two_def)
  with dup ok e show ?thesis by simp
qed

text \<open>
  Claim C8. For a username that no user has and a password whose hash verifies (the
  contract of the password library), \<open>create_user\<close> succeeds, \<open>login\<close> with the same
  username and password on the resulting state succeeds, and \<open>get_current_user\<close> on the
  token that login returns, at any time up to 30 minutes after the login, returns the
  user that the registration created.
\<close>

theorem register_login_resolve:
  assumes fresh: "uc_username user \<notin> set (map u_username (users db))"
    and hash_ok: "pc_verify ctx (uc_password user) (pc_hash ctx (uc_password user))"
    and in_time: "t_resolve \<le> t_login + 30 * 60"
  shows "case create_user ctx user db of
           (Inl e, db') \<Rightarrow> False
         | (Inr registered, db') \<Rightarrow>
             (case login ctx t_login \<lparr>form_username = uc_username user, form_password = uc_password user\<rparr> db' of
                Inl e \<Rightarrow> False
              | Inr tok \<Rightarrow> get_current_user t_resolve (access_token tok) db' = Inr registered)"
proof -
  from fresh have none: "\<forall>u \<in> set (users db). \<not> u_username u = uc_username user" by force
  then have f: "find (\<lambda>u. u_username u = uc_username user) (users db) = None"
    by (simp add: find_None_conv)
  define registered where "registered = \<lparr>u_id = next_id (map u_id (users db)),
      u_username = uc_username user, u_hashed_password = pc_hash ctx (uc_password user)\<rparr>"
  have g: "find (\<lambda>u. u_username u = uc_username user) (users db @ [registered]) = Some registered"
    using none by (intro find_append_fresh) (simp_all add: registered_def)
  have sel: "u_username registered = uc_username user"
    "u_hashed_password registered = pc_hash ctx (uc_password user)"
    by (simp_all add: registered_def)
  show ?thesis
    using f g hash_ok in_time sel
    by (simp add: create_user_def Let_def login_def get_password_hash_def verify_password_def
        registered_def [symmetric] create_access_token_def jwt_encode_def get_current_user_def
        jwt_decode_def ACCESS_TOKEN_EXPIRE_MINUTES_def)
qed

text \<open>
  An instance: \<open>carol\<close> registers on the state with alice and bob, logs in at time 10 and
  presents the token at time 20.
\<close>

theorem register_login_resolve_witness:
  "case create_user demo_ctx \<lparr>uc_username = ''carol'', uc_password = ''pw''\<rparr> (db_two (Finite 100)) of
     (Inl e, db') \<Rightarrow> False
   | (Inr registered, db') \<Rightarrow>
       registered = \<lparr>u_id = 3, u_username = ''carol'', u_hashed_password = ''$pw''\<rparr>
       \<and> (case login demo_ctx 10 \<lparr>form_username = ''carol'', form_password = ''pw''\<rparr> db' of
             Inl e \<Rightarrow> False
           | Inr tok \<Rightarrow>
               get_current_user 20 (access_token tok) db'
               = Inr \<lparr>u_id = 3, u_username = ''carol'', u_hashed_password = ''$pw''\<rparr>)"
proof -
  let ?db = "db_two (Finite 100)"
  let ?uc = "\<lparr>uc_username = ''carol'', uc_password = ''pw''\<rparr>"
  have fresh: "uc_username ?uc \<notin> set (map u_username (users ?db))"
    by (simp add: db_two_def alice_def bob_def)
  have hash_ok: "pc_verify demo_ctx (uc_password ?uc) (pc_hash demo_ctx (uc_password ?uc))"
    by (simp add: demo_ctx_def)
  have in_time: "(20::int) \<le> 10 + 30 * 60" by simp
  have r: "create_user demo_ctx ?uc ?db
     = (Inr \<lparr>u_id = 3, u_username = ''carol'', u_hashed_password = ''$pw''\<rparr>,
        \<lparr>users = [alice, bob, \<lparr>u_id = 3, u_username = ''carol'', u_hashed_password = ''$pw''\<rparr>],
         wallets = [\<lparr>w_id = 1, w_user_id = 1, w_currency = ''USDT'', w_balance = Some (Finite 100)\<rparr>,
                    \<lparr>w_id = 2, w_user_id = 2, w_currency = ''USDT'', w_balance = Some (Finite 0)\<rparr>,
                    \<lparr>w_id = 3, w_user_id = 3, w_currency = ''USDT'', w_balance = Some (Finite 0)\<rparr>],
         transactions = []\<rparr>)"
    by (simp add: create_user_def get_password_hash_def demo_ctx_def next_id_def db_two_def
        alice_def bob_def sql_real_def Let_def)
  from register_login_resolve [OF fresh hash_ok in_time]
  show ?thesis by (simp add: r)
qed

text \<open>
  Claim C9. A token whose \<open>exp\<close> claim lies before the current time is rejected by
  \<open>get_current_user\<close> with the 401 credentials exception, whatever key signed it and
  whatever it resolved to earlier; and the two routes that change balances, reached with
  such a token, return that exception and leave the database unchanged. Time is counted
  in whole seconds, as the token stores it.
\<close>

theorem expired_token_rejected:
  assumes "exp payload = Some e" and "e < now"
  shows "get_current_user now (Signed k payload) db = Inl credentials_exception
       \<and> post_transactions now (Signed k payload) transaction db = (Inl credentials_exception, db)
       \<and> post_convert now (Signed k payload) conversion db = (Inl credentials_exception, db)"
  using assms
  by (simp add: get_current_user_def jwt_decode_def post_transactions_def post_convert_def authorized_def)

text \<open>
  An instance: the token issued to alice at time 0 expires at 1800. It resolves to alice
  at time 1800 and is rejected at time 1801, also on the two routes.
\<close>

theorem expired_token_rejected_witness:
  "alice_token = Signed SECRET_KEY \<lparr>sub = Some ''alice'', exp = Some 1800\<rparr>
   \<and> get_current_user 1800 alice_token (db_two (Finite 100)) = Inr alice
   \<and> get_current_user 1801 alice_token (db_two (Finite 100)) = Inl credentials_exception
   \<and> post_transactions 1801 alice_token \<lparr>tc_amount = Finite 25, tc_currency = ''USDT'',
        tc_transaction_type = ''deposit'', tc_recipient_wallet_id = None\<rparr> (db_two (Finite 100))
      = (Inl credentials_exception, db_two (Finite 100))
   \<and> post_convert 1801 alice_token \<lparr>amount_uzs = Finite 12700\<rparr> (db_two (Finite 100))
      = (Inl credentials_exception, db_two (Finite 100))"
proof -
  have tok: "alice_token = Signed SECRET_KEY \<lparr>sub = Some ''alice'', exp = Some 1800\<rparr>"
    by (simp add: alice_token_def create_access_token_def jwt_encode_def
        ACCESS_TOKEN_EXPIRE_MINUTES_def Let_def)
  have before: "get_current_user 1800 alice_token (db_two (Finite 100)) = Inr alice"
    by (simp add: tok get_current_user_def jwt_decode_def db_two_def alice_def)
  have e: "exp \<lparr>sub = Some ''alice'', exp = Some 1800\<rparr> = Some 1800" by simp
  have l: "(1800::int) < 1801" by simp
  from expired_token_rejected [OF e l, of SECRET_KEY "db_two (Finite 100)"] tok before
  show ?thesis by simp
qed




end
